theory Spec2Isabelle
  imports Complex_Main "HOL-Library.Log_Nat"
begin

section \<open>Python numbers\<close>

text \<open>
  \<^verbatim>\<open>process_videos.py\<close> computes with Python \<open>int\<close> (unbounded, modelled as \<open>int\<close>)
  and Python \<open>float\<close> (IEEE-754 binary64). A float is modelled by the rational number it
  denotes, and every floating-point operation rounds its exact result to 53 significant
  bits, ties to even, as binary64 does. The exponent range is not bounded: overflow to
  \<open>inf\<close>, \<open>nan\<close>, subnormal numbers and the \<open>OverflowError\<close> of converting an integer
  of more than 1024 bits are outside the model (durations in seconds stay far below).
\<close>

type_synonym pyfloat = rat

definition round_half_even :: "rat \<Rightarrow> int" where
  "round_half_even x = (let f = \<lfloor>x\<rfloor>; r = x - of_int f in
      if r < 1/2 then f else if 1/2 < r then f + 1 else if even f then f else f + 1)"

text \<open>\<open>binade x\<close> is the exponent \<open>e\<close> with \<open>2^e \<le> |x| < 2^(e+1)\<close>, for \<open>x \<noteq> 0\<close>.\<close>

definition binade :: "rat \<Rightarrow> int" where
  "binade x = (let a = \<bar>x\<bar> in
      if 1 \<le> a then int (floorlog 2 (nat \<lfloor>a\<rfloor>)) - 1
      else - int (floorlog 2 (nat \<lceil>1 / a\<rceil> - 1)))"

text \<open>\<open>fl x\<close>: the binary64 number nearest to \<open>x\<close> (53-bit significand, ties to even).\<close>

definition fl :: "rat \<Rightarrow> pyfloat" where
  "fl x = (if x = 0 then 0 else
     let u = 2 powi (binade x - 52) in of_int (round_half_even (x / u)) * u)"

definition fadd :: "pyfloat \<Rightarrow> pyfloat \<Rightarrow> pyfloat" where
  "fadd x y = fl (x + y)"

definition fsub :: "pyfloat \<Rightarrow> pyfloat \<Rightarrow> pyfloat" where
  "fsub x y = fl (x - y)"

definition fmul :: "pyfloat \<Rightarrow> pyfloat \<Rightarrow> pyfloat" where
  "fmul x y = fl (x * y)"

text \<open>Float division; every divisor in the program is a non-zero constant.\<close>

definition fdiv :: "pyfloat \<Rightarrow> pyfloat \<Rightarrow> pyfloat" where
  "fdiv x y = fl (x / y)"

text \<open>\<open>float(i)\<close> for an integer, as in the mixed operations \<open>int + float\<close>, \<open>int / float\<close>.\<close>

definition float_of_int :: "int \<Rightarrow> pyfloat" where
  "float_of_int i = fl (of_int i)"

text \<open>\<open>num / den\<close> on two integers (\<open>den \<noteq> 0\<close>): the correctly rounded quotient.\<close>

definition int_truediv :: "int \<Rightarrow> int \<Rightarrow> pyfloat" where
  "int_truediv num den = fl (of_int num / of_int den)"

text \<open>\<open>int(x)\<close> on a float truncates towards zero.\<close>

definition int_of_float :: "pyfloat \<Rightarrow> int" where
  "int_of_float x = (if 0 \<le> x then \<lfloor>x\<rfloor> else \<lceil>x\<rceil>)"

text \<open>A value that is an \<open>int\<close> on one path and a \<open>float\<close> on another.\<close>

datatype pynum = PyInt int | PyFloat pyfloat

section \<open>Python strings\<close>

text \<open>
  A \<open>str\<close> is a list of characters. The model reads ASCII text: the decimal digits are
  \<open>0\<close> to \<open>9\<close>, white space and line boundaries are the ASCII ones (Python also knows
  the Unicode ones, which the decoded output of the external tools does not contain).
\<close>

datatype error = CalledProcessError int "string list" | ValueError | SystemExit int

definition is_digit :: "char \<Rightarrow> bool" where
  "is_digit c = (c \<in> set ''0123456789'')"

definition digit_val :: "char \<Rightarrow> nat" where
  "digit_val c = of_char c - 48"

text \<open>\<open>int(s)\<close> on a non-empty run of decimal digits.\<close>

definition int_of_digits :: "string \<Rightarrow> int" where
  "int_of_digits ds = int (foldl (\<lambda>n c. 10 * n + digit_val c) 0 ds)"

text \<open>\<open>str.strip()\<close>: white space is tab, LF, VT, FF, CR, FS, GS, RS, US and space.\<close>

definition is_space :: "char \<Rightarrow> bool" where
  "is_space c = ((of_char c :: nat) \<in> {9, 10, 11, 12, 13, 28, 29, 30, 31, 32})"

definition strip :: "string \<Rightarrow> string" where
  "strip s = rev (dropWhile is_space (rev (dropWhile is_space s)))"

text \<open>
  \<open>str.splitlines()\<close>: a line ends at LF, VT, FF, CR, FS, GS or RS; CR LF is one
  boundary; a boundary at the end of the text opens no further line.
\<close>

definition is_linebreak :: "char \<Rightarrow> bool" where
  "is_linebreak c = ((of_char c :: nat) \<in> {10, 11, 12, 13, 28, 29, 30})"

fun splitlines_from :: "string \<Rightarrow> string \<Rightarrow> string list" where
  "splitlines_from cur [] = (if cur = [] then [] else [cur])"
| "splitlines_from cur [c] = (if is_linebreak c then [cur] else [cur @ [c]])"
| "splitlines_from cur (c # d # cs) =
     (if c = CHR 0x0D \<and> d = CHR 0x0A then cur # splitlines_from [] cs
      else if is_linebreak c then cur # splitlines_from [] (d # cs)
      else splitlines_from (cur @ [c]) (d # cs))"

definition splitlines :: "string \<Rightarrow> string list" where
  "splitlines s = splitlines_from [] s"

text \<open>\<open>s.split(sep)\<close> for a separator of one character.\<close>

fun split_on :: "char \<Rightarrow> string \<Rightarrow> string list" where
  "split_on sep [] = [[]]"
| "split_on sep (c # cs) =
     (if c = sep then [] # split_on sep cs
      else (case split_on sep cs of p # ps \<Rightarrow> (c # p) # ps | [] \<Rightarrow> [[c]]))"

text \<open>
  \<open>int(s)\<close> on a string: white space around, an optional sign, then decimal digits
  in which single underscores may stand between two digits; \<open>ValueError\<close> otherwise.
\<close>

fun int_body_ok :: "string \<Rightarrow> bool" where
  "int_body_ok [] = False"
| "int_body_ok [c] = is_digit c"
| "int_body_ok (c # d # cs) =
     (is_digit c \<and> (if d = CHR ''_'' then int_body_ok cs else int_body_ok (d # cs)))"

definition py_int :: "string \<Rightarrow> error + int" where
  "py_int s =
     (case strip s of
        [] \<Rightarrow> Inl ValueError
      | c # r \<Rightarrow>
          (let body = (if c = CHR ''-'' \<or> c = CHR ''+'' then r else c # r) in
           if int_body_ok body
           then Inr ((if c = CHR ''-'' then - 1 else 1) * int_of_digits (filter is_digit body))
           else Inl ValueError))"

text \<open>\<open>str.lower()\<close> on ASCII letters.\<close>

definition py_lower :: "string \<Rightarrow> string" where
  "py_lower s =
     map (\<lambda>c. if (65::nat) \<le> of_char c \<and> (of_char c :: nat) \<le> 90
              then char_of ((of_char c :: nat) + 32) else c) s"

text \<open>\<open>sub in s\<close> on strings.\<close>

definition starts_with :: "string \<Rightarrow> string \<Rightarrow> bool" where
  "starts_with p s = (take (length p) s = p)"

fun py_in :: "string \<Rightarrow> string \<Rightarrow> bool" where
  "py_in sub [] = (sub = [])"
| "py_in sub (c # cs) = (starts_with sub (c # cs) \<or> py_in sub cs)"

text \<open>\<open>str(i)\<close> for an integer: its decimal digits, with a minus sign when negative.\<close>

fun show_nat :: "nat \<Rightarrow> string" where
  "show_nat k = (if k < 10 then [''0123456789'' ! k]
                 else show_nat (k div 10) @ [''0123456789'' ! (k mod 10)])"

declare show_nat.simps [simp del]

definition show_int :: "int \<Rightarrow> string" where
  "show_int i = (if i < 0 then CHR ''-'' # show_nat (nat (- i)) else show_nat (nat i))"


section \<open>Progress-tracking process runner\<close>

text \<open>
  \<^verbatim>\<open>time_pattern = re.compile(r"time=(\d+):(\d+):(\d+).(\d+)")\<close>

  \<open>match_time_at s\<close> is the match of the pattern at the start of \<open>s\<close>, with its four
  groups. The first two groups take every digit there is: a shorter choice would leave a
  digit where the colon must stand. The third group is followed by \<open>.\<close>, which is not
  escaped and matches any character but a newline, so the matcher tries the longest
  third group first and gives digits back one by one (\<open>secs_frac\<close>); the fourth group
  takes every digit that follows.
\<close>

fun secs_frac :: "nat \<Rightarrow> string \<Rightarrow> (string \<times> string) option" where
  "secs_frac 0 r = None"
| "secs_frac (Suc k) r =
     (case drop (Suc k) r of
        [] \<Rightarrow> secs_frac k r
      | c # t \<Rightarrow>
          if c \<noteq> CHR 0x0A \<and> takeWhile is_digit t \<noteq> []
          then Some (take (Suc k) r, takeWhile is_digit t)
          else secs_frac k r)"

definition match_time_at :: "string \<Rightarrow> (string \<times> string \<times> string \<times> string) option" where
  "match_time_at s =
     (if starts_with ''time='' s then
        (let r0 = drop 5 s; h = takeWhile is_digit r0 in
         if h = [] then None
         else (case dropWhile is_digit r0 of
             [] \<Rightarrow> None
           | c1 # r2 \<Rightarrow>
               if c1 \<noteq> CHR '':'' then None
               else (let m = takeWhile is_digit r2 in
                 if m = [] then None
                 else (case dropWhile is_digit r2 of
                     [] \<Rightarrow> None
                   | c2 # r4 \<Rightarrow>
                       if c2 \<noteq> CHR '':'' then None
                       else (case secs_frac (length (takeWhile is_digit r4)) r4 of
                           None \<Rightarrow> None
                         | Some (sec, ms) \<Rightarrow> Some (h, m, sec, ms))))))
      else None)"

text \<open>\<open>time_pattern.search(line)\<close>: the match at the leftmost position that has one.\<close>

fun search_time :: "string \<Rightarrow> (string \<times> string \<times> string \<times> string) option" where
  "search_time [] = None"
| "search_time (c # cs) =
     (case match_time_at (c # cs) of Some g \<Rightarrow> Some g | None \<Rightarrow> search_time cs)"

text \<open>
  \<^verbatim>\<open>seconds = int(h) * 3600 + int(m) * 60 + int(s) + int(ms) / 100.0\<close>:
  integer arithmetic, one float division, one float addition.
\<close>

definition timestamp_seconds :: "int \<Rightarrow> int \<Rightarrow> int \<Rightarrow> int \<Rightarrow> pyfloat" where
  "timestamp_seconds h m s ms =
     fadd (float_of_int (h * 3600 + m * 60 + s)) (fdiv (float_of_int ms) 100)"

definition parse_time :: "string \<Rightarrow> pyfloat option" where
  "parse_time line =
     (case search_time line of
        None \<Rightarrow> None
      | Some (h, m, s, ms) \<Rightarrow>
          Some (timestamp_seconds (int_of_digits h) (int_of_digits m)
                  (int_of_digits s) (int_of_digits ms)))"

text \<open>
  \<^verbatim>\<open>if total_duration: pbar = tqdm(total=total_duration, ...)\<close>: a bar exists when the
  hint is neither \<open>None\<close> nor zero. The truth value of a bar (\<^verbatim>\<open>and pbar\<close>,
  \<^verbatim>\<open>if pbar:\<close>) is tqdm's \<^verbatim>\<open>__bool__\<close>, which returns \<^verbatim>\<open>self.total > 0\<close> for a bar
  with a total.
\<close>

definition has_pbar :: "pyfloat option \<Rightarrow> bool" where
  "has_pbar total_duration = (case total_duration of None \<Rightarrow> False | Some t \<Rightarrow> t \<noteq> 0)"

definition pbar_bool :: "pyfloat option \<Rightarrow> bool" where
  "pbar_bool total_duration =
     (case total_duration of None \<Rightarrow> False | Some t \<Rightarrow> t \<noteq> 0 \<and> 0 < t)"

text \<open>
  One pass of the loop body (lines 30-36): the value assigned to \<^verbatim>\<open>pbar.n\<close> and
  shown by \<^verbatim>\<open>pbar.refresh()\<close>, or \<open>None\<close> when the line leaves the bar alone.
\<close>

definition progress_line :: "pyfloat option \<Rightarrow> string \<Rightarrow> pyfloat option" where
  "progress_line total_duration line =
     (if py_in ''time='' line \<and> has_pbar total_duration \<and> pbar_bool total_duration then
        (case parse_time line of
           None \<Rightarrow> None
         | Some seconds \<Rightarrow> Some (min seconds (the total_duration)))
      else None)"

text \<open>The values published while the diagnostic stream is read, in order.\<close>

definition published_progress :: "pyfloat option \<Rightarrow> string list \<Rightarrow> pyfloat list" where
  "published_progress total_duration lines = List.map_filter (progress_line total_duration) lines"

text \<open>
  What a finished child process leaves: the lines of its diagnostic stream and its exit
  status. The child is taken to exit, so the stream is a finite list.
\<close>

record proc =
  stderr_lines :: "string list"
  returncode :: int

text \<open>
  \<^verbatim>\<open>run_ffmpeg_with_progress(cmd, total_duration, desc)\<close>: the values the bar showed
  (the last one is \<^verbatim>\<open>pbar.n = pbar.total\<close>), and the outcome: \<open>CalledProcessError\<close> on
  a non-zero exit status.
\<close>

definition run_ffmpeg_with_progress ::
  "(string list \<Rightarrow> proc) \<Rightarrow> string list \<Rightarrow> pyfloat option \<Rightarrow> string
     \<Rightarrow> pyfloat list \<times> (error + unit)" where
  "run_ffmpeg_with_progress popen cmd total_duration desc =
     (let process = popen cmd;
          shown = published_progress total_duration (stderr_lines process);
          closing = (if pbar_bool total_duration then [the total_duration] else [])
      in (shown @ closing,
          if returncode process \<noteq> 0
          then Inl (CalledProcessError (returncode process) cmd)
          else Inr ()))"

section \<open>Paths and the world outside\<close>

text \<open>
  A \<open>Path\<close> is the list of its components; \<open>p / name\<close> appends one, \<open>p.name\<close> is the
  last one and \<open>str(p)\<close> joins them with \<open>/\<close>.
\<close>

type_synonym path = "string list"

definition path_name :: "path \<Rightarrow> string" where
  "path_name p = (if p = [] then [] else last p)"

fun join_path :: "path \<Rightarrow> string" where
  "join_path [] = []"
| "join_path [a] = a"
| "join_path (a # b # p) = a @ ''/'' @ join_path (b # p)"

definition path_str :: "path \<Rightarrow> string" where
  "path_str p = (if p = [] then ''.'' else join_path p)"

text \<open>What \<open>subprocess.run(..., capture_output=True, text=True)\<close> returns.\<close>

record completed =
  run_returncode :: int
  run_stdout :: string

text \<open>
  Everything the program reads from outside: the directory of the script, the file
  system (\<open>fs_glob_mp4 d\<close> lists the names \<^verbatim>\<open>d.glob("*.mp4")\<close> yields, in its order),
  the two external tools, answering each command line, and the two built-ins on floats
  that are taken as given: \<open>float(s)\<close> (\<open>None\<close> where it raises \<open>ValueError\<close>) and the
  text an f-string gives a float.
\<close>

record world =
  script_dir :: path
  fs_exists :: "path \<Rightarrow> bool"
  fs_is_dir :: "path \<Rightarrow> bool"
  fs_iterdir :: "path \<Rightarrow> string list"
  fs_glob_mp4 :: "path \<Rightarrow> string list"
  ffprobe :: "string list \<Rightarrow> completed"
  ffmpeg :: "string list \<Rightarrow> proc"
  float_of_str :: "string \<Rightarrow> pyfloat option"
  float_repr :: "pyfloat \<Rightarrow> string"

section \<open>Media prober\<close>

text \<open>\<^verbatim>\<open>get_duration(video_path)\<close>; \<open>check=True\<close> raises on a non-zero exit status.\<close>

definition duration_cmd :: "path \<Rightarrow> string list" where
  "duration_cmd video_path =
     [''ffprobe'', ''-v'', ''error'',
      ''-show_entries'', ''format=duration'',
      ''-of'', ''default=noprint_wrappers=1:nokey=1'',
      path_str video_path]"

definition get_duration :: "world \<Rightarrow> path \<Rightarrow> error + pyfloat" where
  "get_duration w video_path =
     (let result = ffprobe w (duration_cmd video_path) in
      if run_returncode result \<noteq> 0
      then Inl (CalledProcessError (run_returncode result) (duration_cmd video_path))
      else (case float_of_str w (strip (run_stdout result)) of
              None \<Rightarrow> Inl ValueError
            | Some d \<Rightarrow> Inr d))"

text \<open>
  \<^verbatim>\<open>get_stream_info(video_path)\<close>. The two unpackings (three lines; two parts around
  the slash) and the four \<open>int(...)\<close> raise \<open>ValueError\<close>.
\<close>

definition stream_cmd :: "path \<Rightarrow> string list" where
  "stream_cmd video_path =
     [''ffprobe'', ''-v'', ''error'',
      ''-select_streams'', ''v:0'',
      ''-show_entries'', ''stream=width,height,r_frame_rate'',
      ''-of'', ''default=noprint_wrappers=1:nokey=1'',
      path_str video_path]"

definition frame_rate :: "int \<Rightarrow> int \<Rightarrow> pynum" where
  "frame_rate num den = (if den \<noteq> 0 then PyFloat (int_truediv num den) else PyInt 25)"

definition parse_stream_info :: "string \<Rightarrow> error + (int \<times> int \<times> pynum)" where
  "parse_stream_info out =
     (case splitlines (strip out) of
        [width, height, fps_str] \<Rightarrow>
          (case map py_int (split_on CHR ''/'' fps_str) of
             [Inr num, Inr den] \<Rightarrow>
               (case (py_int width, py_int height) of
                  (Inr wd, Inr ht) \<Rightarrow> Inr (wd, ht, frame_rate num den)
                | _ \<Rightarrow> Inl ValueError)
           | _ \<Rightarrow> Inl ValueError)
      | _ \<Rightarrow> Inl ValueError)"

definition get_stream_info :: "world \<Rightarrow> path \<Rightarrow> error + (int \<times> int \<times> pynum)" where
  "get_stream_info w video_path =
     (let result = ffprobe w (stream_cmd video_path) in
      if run_returncode result \<noteq> 0
      then Inl (CalledProcessError (run_returncode result) (stream_cmd video_path))
      else parse_stream_info (run_stdout result))"

section \<open>Filter graph builder: the crossfade offsets\<close>

text \<open>
  \<^verbatim>\<open>offset1 = intro_visible\<close>
  \<^verbatim>\<open>offset2 = offset1 + main_duration - crossfade_dur\<close>
  (lines 88-89 of \<^verbatim>\<open>build_crossfade_filter\<close>; all three arguments are floats).
\<close>

definition crossfade_offset1 :: "pyfloat \<Rightarrow> pyfloat" where
  "crossfade_offset1 intro_visible = intro_visible"

definition crossfade_offset2 :: "pyfloat \<Rightarrow> pyfloat \<Rightarrow> pyfloat \<Rightarrow> pyfloat" where
  "crossfade_offset2 intro_visible main_duration crossfade_dur =
     fsub (fadd (crossfade_offset1 intro_visible) main_duration) crossfade_dur"

text \<open>How an f-string writes a number: an \<open>int\<close> in decimal, a \<open>float\<close> by its \<open>repr\<close>.\<close>

definition fmt_num :: "(pyfloat \<Rightarrow> string) \<Rightarrow> pynum \<Rightarrow> string" where
  "fmt_num repr v = (case v of PyInt i \<Rightarrow> show_int i | PyFloat x \<Rightarrow> repr x)"

text \<open>
  \<^verbatim>\<open>max(0, main_duration - crossfade_dur)\<close> keeps the integer \<open>0\<close> unless the
  difference is greater.
\<close>

definition fade_start :: "pyfloat \<Rightarrow> pyfloat \<Rightarrow> pynum" where
  "fade_start main_duration crossfade_dur =
     (if 0 < fsub main_duration crossfade_dur
      then PyFloat (fsub main_duration crossfade_dur) else PyInt 0)"

text \<open>
  \<^verbatim>\<open>build_crossfade_filter(intro_img, main_video, outro_img, main_duration, w, h, fps,
  intro_visible, crossfade_dur, outro_visible)\<close>; the three paths and \<open>outro_visible\<close> do
  not enter the text.
\<close>

definition build_crossfade_filter ::
  "(pyfloat \<Rightarrow> string) \<Rightarrow> path \<Rightarrow> path \<Rightarrow> path \<Rightarrow> pyfloat \<Rightarrow> int \<Rightarrow> int \<Rightarrow> pynum
     \<Rightarrow> pyfloat \<Rightarrow> pyfloat \<Rightarrow> pyfloat \<Rightarrow> string" where
  "build_crossfade_filter repr intro_img main_video outro_img main_duration w h fps
       intro_visible crossfade_dur outro_visible =
     (let offset1 = crossfade_offset1 intro_visible;
          offset2 = crossfade_offset2 intro_visible main_duration crossfade_dur;
          intro_ms = int_of_float (fmul intro_visible (float_of_int 1000))
      in ''[1:v]fps='' @ fmt_num repr fps @ '',scale='' @ show_int w @ '':'' @ show_int h
           @ '':force_original_aspect_ratio=decrease,''
         @ ''pad='' @ show_int w @ '':'' @ show_int h @ '':(ow-iw)/2:(oh-ih)/2,setsar=1[vmain];''
         @ ''[0:v]fps='' @ fmt_num repr fps @ '',scale='' @ show_int w @ '':'' @ show_int h
           @ '':force_original_aspect_ratio=decrease,''
         @ ''pad='' @ show_int w @ '':'' @ show_int h @ '':(ow-iw)/2:(oh-ih)/2,setsar=1[vintro];''
         @ ''[2:v]fps='' @ fmt_num repr fps @ '',scale='' @ show_int w @ '':'' @ show_int h
           @ '':force_original_aspect_ratio=decrease,''
         @ ''pad='' @ show_int w @ '':'' @ show_int h @ '':(ow-iw)/2:(oh-ih)/2,setsar=1[voutro];''
         @ ''[vintro][vmain]xfade=transition=fade:duration='' @ repr crossfade_dur
           @ '':offset='' @ repr offset1 @ ''[im];''
         @ ''[im][voutro]xfade=transition=fade:duration='' @ repr crossfade_dur
           @ '':offset='' @ repr offset2 @ ''[outv];''
         @ ''[1:a]afade=t=out:st='' @ fmt_num repr (fade_start main_duration crossfade_dur)
           @ '':d='' @ repr crossfade_dur @ ''[a1];''
         @ ''[a1]adelay='' @ show_int intro_ms @ ''|'' @ show_int intro_ms
           @ '',asetpts=PTS-STARTPTS[aout]'')"

section \<open>Project pipeline\<close>

text \<open>
  What a run does to the outside, in order: the directories it creates and the encoder
  commands it starts, each with its total-duration hint and its label. The messages
  printed on the console are left out. The external tools answer, and the file system
  obeys: an \<open>OSError\<close> of \<open>mkdir\<close>, \<open>iterdir\<close> or of starting a tool is not a branch of
  the model. The exceptions of the model are those the program raises itself or asks for:
  \<open>CalledProcessError\<close> (\<open>check=True\<close>, line 45), \<open>ValueError\<close> (parsing) and
  \<open>SystemExit\<close> (\<^verbatim>\<open>sys.exit(1)\<close>).
\<close>

datatype event = Mkdir path | Run "string list" "pyfloat option" string

text \<open>
  The encoder commands among the events: label, total-duration hint, and the output file
  (the last word of the command line).
\<close>

fun run_hints :: "event list \<Rightarrow> (string \<times> pyfloat option \<times> string) list" where
  "run_hints [] = []"
| "run_hints (Mkdir p # es) = run_hints es"
| "run_hints (Run cmd hint label # es) = (label, hint, last cmd) # run_hints es"

text \<open>The codec selection of \<^verbatim>\<open>process_project\<close> (lines 148-166).\<close>

definition select_vcodec :: "string \<Rightarrow> string list" where
  "select_vcodec codec =
     (if codec = ''h265'' then
        [''-c:v'', ''libx265'', ''-pix_fmt'', ''yuv420p'', ''-x265-params'', ''crf=28'']
      else if codec = ''h264'' then
        [''-c:v'', ''h264_nvenc'', ''-pix_fmt'', ''yuv420p'']
      else
        [''-c:v'', ''hevc_nvenc'', ''-preset'', ''p7'', ''-tune'', ''hq'', ''-pix_fmt'', ''yuv420p''])"

definition normalize_cmd :: "path \<Rightarrow> path \<Rightarrow> string list" where
  "normalize_cmd main_video normalized_video =
     [''ffmpeg'', ''-y'',
      ''-i'', path_str main_video,
      ''-af'', ''loudnorm=I=-16:TP=-1.5:LRA=11'',
      path_str normalized_video]"

definition render_cmd ::
  "path \<Rightarrow> path \<Rightarrow> path \<Rightarrow> string \<Rightarrow> string list \<Rightarrow> path \<Rightarrow> string list" where
  "render_cmd intro_img normalized_video outro_img filter_complex vcodec final_video =
     [''ffmpeg'', ''-y'',
      ''-loop'', ''1'', ''-t'', ''5'', ''-i'', path_str intro_img,
      ''-i'', path_str normalized_video,
      ''-loop'', ''1'', ''-t'', ''5'', ''-i'', path_str outro_img,
      ''-filter_complex'', filter_complex,
      ''-map'', ''[outv]'', ''-map'', ''[aout]'']
     @ vcodec
     @ [''-c:a'', ''aac'', ''-b:a'', ''192k'',
        path_str final_video]"

text \<open>
  \<^verbatim>\<open>process_project(proj_dir, codec)\<close>: the events of the call and its outcome,
  \<open>Inr ()\<close> for a return and \<open>Inl e\<close> for an exception \<open>e\<close> that leaves the function. The
  function has no \<open>try\<close>: whatever a callee raises leaves it.
\<close>

definition process_project :: "world \<Rightarrow> path \<Rightarrow> string \<Rightarrow> event list \<times> (error + unit)" where
  "process_project w proj_dir codec =
     (let work_dir = proj_dir @ [''02_Work''];
          final_dir = proj_dir @ [''03_Final''];
          made = [Mkdir work_dir, Mkdir final_dir]
      in case fs_glob_mp4 w proj_dir of
           [] \<Rightarrow> (made, Inr ())
         | first_mp4 # _ \<Rightarrow>
           (let main_video = proj_dir @ [first_mp4];
                intro_img = proj_dir @ [''intro.png''];
                outro_img = proj_dir @ [''outro.png'']
            in if \<not> fs_exists w intro_img \<or> \<not> fs_exists w outro_img then (made, Inr ())
               else
                 (let normalized_video = work_dir @ [''normalized.mp4''];
                      final_video = final_dir @ [path_name proj_dir @ ''_final.mp4'']
                  in case get_duration w main_video of
                       Inl e \<Rightarrow> (made, Inl e)
                     | Inr raw_dur \<Rightarrow>
                       (let norm = Run (normalize_cmd main_video normalized_video)
                                     (Some raw_dur) ''Normalizing''
                        in case snd (run_ffmpeg_with_progress (ffmpeg w)
                                      (normalize_cmd main_video normalized_video)
                                      (Some raw_dur) ''Normalizing'') of
                             Inl e \<Rightarrow> (made @ [norm], Inl e)
                           | Inr _ \<Rightarrow>
                             (case get_duration w normalized_video of
                                Inl e \<Rightarrow> (made @ [norm], Inl e)
                              | Inr main_dur \<Rightarrow>
                                (case get_stream_info w normalized_video of
                                   Inl e \<Rightarrow> (made @ [norm], Inl e)
                                 | Inr (wd, ht, fps) \<Rightarrow>
                                   (let filter_complex =
                                          build_crossfade_filter (float_repr w) intro_img
                                            normalized_video outro_img main_dur wd ht fps 4 1 4;
                                        vcodec = select_vcodec codec;
                                        total_proj_duration = fadd main_dur (float_of_int 8);
                                        cmd = render_cmd intro_img normalized_video outro_img
                                                filter_complex vcodec final_video
                                    in (made @ [norm, Run cmd (Some total_proj_duration) ''Rendering''],
                                        snd (run_ffmpeg_with_progress (ffmpeg w) cmd
                                               (Some total_proj_duration) ''Rendering'')))))))))"

section \<open>Main entry\<close>

text \<open>The codec name \<^verbatim>\<open>main\<close> takes from \<^verbatim>\<open>sys.argv\<close> (lines 195-199).\<close>

definition codec_of_argv :: "string list \<Rightarrow> string" where
  "codec_of_argv argv =
     (if ''--codec'' \<in> set argv then
        (let idx = length (takeWhile (\<lambda>a. a \<noteq> ''--codec'') argv) in
         if idx + 1 < length argv then py_lower (argv ! (idx + 1)) else ''h265_nvenc'')
      else ''h265_nvenc'')"

text \<open>The loop \<^verbatim>\<open>for proj_dir in proj_dirs: process_project(proj_dir, codec)\<close>.\<close>

fun run_projects :: "world \<Rightarrow> string \<Rightarrow> path list \<Rightarrow> event list \<times> (error + unit)" where
  "run_projects w codec [] = ([], Inr ())"
| "run_projects w codec (d # ds) =
     (case process_project w d codec of
        (ev, Inl e) \<Rightarrow> (ev, Inl e)
      | (ev, Inr _) \<Rightarrow> (case run_projects w codec ds of (ev', r) \<Rightarrow> (ev @ ev', r)))"

definition proj_dirs_of :: "world \<Rightarrow> path list" where
  "proj_dirs_of w =
     filter (fs_is_dir w) (map (\<lambda>name. script_dir w @ [''VID'', name])
                              (fs_iterdir w (script_dir w @ [''VID''])))"

definition main :: "world \<Rightarrow> string list \<Rightarrow> event list \<times> (error + unit)" where
  "main w argv =
     (if \<not> fs_exists w (script_dir w @ [''VID'']) then ([], Inl (SystemExit 1))
      else run_projects w (codec_of_argv argv) (proj_dirs_of w))"

text \<open>
  The exit status of the interpreter: the argument of \<^verbatim>\<open>sys.exit\<close>, 1 for any other
  exception that reaches the top, 0 when \<^verbatim>\<open>main\<close> returns.
\<close>

definition exit_status :: "error + unit \<Rightarrow> int" where
  "exit_status r = (case r of Inl (SystemExit k) \<Rightarrow> k | Inl _ \<Rightarrow> 1 | Inr _ \<Rightarrow> 0)"

section \<open>Concrete inputs\<close>

text \<open>The binary64 number written \<open>1.1\<close>.\<close>

definition dbl_1_1 :: pyfloat where
  "dbl_1_1 = 2476979795053773 / 2251799813685248"

text \<open>An encoder whose diagnostic stream steps back from 5 s to 3 s.\<close>

definition two_step_stream :: "string list \<Rightarrow> proc" where
  "two_step_stream cmd =
     \<lparr>stderr_lines = [''time=00:00:05.00'', ''time=00:00:03.00''], returncode = 0\<rparr>"

text \<open>An encoder whose diagnostic stream advances from 3 s to 5 s.\<close>

definition rising_stream :: "string list \<Rightarrow> proc" where
  "rising_stream cmd =
     \<lparr>stderr_lines = [''time=00:00:03.00'', ''size=N/A time=N/A'', ''time=00:00:05.00''],
      returncode = 0\<rparr>"

text \<open>An encoder that reports 25 s of a 20 s job.\<close>

definition overshoot_stream :: "string list \<Rightarrow> proc" where
  "overshoot_stream cmd =
     \<lparr>stderr_lines = [''frame= 600 fps= 30 time=00:00:25.00 bitrate= 524.3kbits/s''],
      returncode = 0\<rparr>"

text \<open>The text Python gives a float of integral value below \<open>10^16\<close>, such as \<open>30.0\<close>.\<close>

definition whole_repr :: "pyfloat \<Rightarrow> string" where
  "whole_repr x = show_int \<lfloor>x\<rfloor> @ ''.0''"

text \<open>
  A batch directory \<open>VID\<close> beside the script, holding the project directories
  \<open>names\<close>. Each project has \<open>main.mp4\<close>; the files listed in \<open>missing\<close> do not exist.
  Every video probes as 20 s, 1920x1080, 30/1 fps; the encoder prints nothing and exits
  with \<open>enc_status\<close> of its command line.
\<close>

definition studio :: "string list \<Rightarrow> path list \<Rightarrow> (string list \<Rightarrow> int) \<Rightarrow> world" where
  "studio names missing enc_status =
     \<lparr>script_dir = [],
      fs_exists = (\<lambda>p. p \<notin> set missing),
      fs_is_dir = (\<lambda>p. True),
      fs_iterdir = (\<lambda>p. if p = [''VID''] then names else []),
      fs_glob_mp4 = (\<lambda>p. [''main.mp4'']),
      ffprobe = (\<lambda>cmd. \<lparr>run_returncode = 0,
                         run_stdout = (if take 5 cmd = take 5 (duration_cmd [])
                                       then ''20.000000'' @ [CHR 0x0A]
                                       else ''1920'' @ [CHR 0x0A] @ ''1080'' @ [CHR 0x0A]
                                            @ ''30/1'' @ [CHR 0x0A])\<rparr>),
      ffmpeg = (\<lambda>cmd. \<lparr>stderr_lines = [], returncode = enc_status cmd\<rparr>),
      float_of_str = (\<lambda>s. if s = ''20.000000'' then Some 20 else None),
      float_repr = whole_repr\<rparr>"


definition all_succeed :: "string list \<Rightarrow> int" where
  "all_succeed cmd = 0"

text \<open>The encoder fails, with exit status 1, when it normalizes the video of project \<open>A\<close>.\<close>

definition a_fails :: "string list \<Rightarrow> int" where
  "a_fails cmd = (if take 4 cmd = [''ffmpeg'', ''-y'', ''-i'', ''VID/A/main.mp4''] then 1 else 0)"

section \<open>Facts about the numbers\<close>

text \<open>
  \<open>binade\<close> is the binary exponent, and \<open>fl x\<close>, a multiple of \<open>2^(binade x - 52)\<close> by
  its definition, lies within half a unit in the last place of \<open>x\<close>.
\<close>

lemma of_nat_le_pow2: "m \<le> 2 ^ k \<Longrightarrow> (of_nat m :: rat) \<le> 2 ^ k"
proof -
  assume "m \<le> 2 ^ k"
  then have "(of_nat m :: rat) \<le> of_nat (2 ^ k)" by (simp only: of_nat_le_iff)
  then show ?thesis by simp
qed

lemma pow2_le_of_nat: "2 ^ k \<le> m \<Longrightarrow> (2::rat) ^ k \<le> of_nat m"
proof -
  assume "2 ^ k \<le> m"
  then have "(of_nat (2 ^ k) :: rat) \<le> of_nat m" by (simp only: of_nat_le_iff)
  then show ?thesis by simp
qed

lemma powi_nat: "(2::rat) powi (int j) = 2 ^ j"
  by simp

lemma powi_neg: "(2::rat) powi (- int j) = 1 / 2 ^ j"
  by (simp add: power_int_minus inverse_eq_divide)

lemma binade_ge1:
  assumes "1 \<le> (a::rat)"
  shows "2 powi (int (floorlog 2 (nat \<lfloor>a\<rfloor>)) - 1) \<le> a"
    and "a < 2 powi (int (floorlog 2 (nat \<lfloor>a\<rfloor>)) - 1 + 1)"
proof -
  define n where "n = nat \<lfloor>a\<rfloor>"
  have n1: "0 < n" using assms by (simp add: n_def)
  have fb: "2 ^ (floorlog 2 n - 1) \<le> n" "n < 2 ^ floorlog 2 n"
    using floorlog_bounds[of n 2] n1 by auto
  have k1: "0 < floorlog 2 n" using n1 floorlog_eq_zero_iff[of 2 n] by auto
  have nf: "(of_nat n :: rat) = of_int \<lfloor>a\<rfloor>" using assms by (simp add: n_def)
  have na: "of_nat n \<le> a" "a < of_nat n + 1"
    unfolding nf by linarith+
  have "(2::rat) ^ (floorlog 2 n - 1) \<le> of_nat n"
    using fb(1) by (rule pow2_le_of_nat)
  then have "(2::rat) ^ (floorlog 2 n - 1) \<le> a" using na(1) by linarith
  moreover have e: "int (floorlog 2 n) - 1 = int (floorlog 2 n - 1)" using k1 by simp
  ultimately show "2 powi (int (floorlog 2 (nat \<lfloor>a\<rfloor>)) - 1) \<le> a"
    unfolding n_def[symmetric] e powi_nat by simp
  have "n + 1 \<le> 2 ^ floorlog 2 n" using fb(2) by simp
  then have "(of_nat (n + 1) :: rat) \<le> 2 ^ floorlog 2 n"
    by (rule of_nat_le_pow2)
  then have lt: "a < 2 ^ floorlog 2 n" using na(2) by simp
  have e': "int (floorlog 2 n) - 1 + 1 = int (floorlog 2 n)" by simp
  show "a < 2 powi (int (floorlog 2 (nat \<lfloor>a\<rfloor>)) - 1 + 1)"
    unfolding n_def[symmetric] e' powi_nat by (rule lt)
qed

lemma binade_lt1:
  assumes "0 < (a::rat)" "a < 1"
  shows "2 powi (- int (floorlog 2 (nat \<lceil>1 / a\<rceil> - 1))) \<le> a"
    and "a < 2 powi (- int (floorlog 2 (nat \<lceil>1 / a\<rceil> - 1)) + 1)"
proof -
  define y where "y = 1 / a"
  define m where "m = nat \<lceil>y\<rceil>"
  define k where "k = floorlog 2 (m - 1)"
  have y1: "1 < y" using assms by (simp add: y_def)
  have ay: "a = 1 / y" using assms by (simp add: y_def)
  have c1: "1 < \<lceil>y\<rceil>" using y1 by linarith
  have m2: "2 \<le> m" using c1 unfolding m_def by arith
  have mf: "(of_nat m :: rat) = of_int \<lceil>y\<rceil>" using c1 by (simp add: m_def)
  have ym: "y \<le> of_nat m" "of_nat m - 1 < y"
    unfolding mf by linarith+
  have fb: "2 ^ (k - 1) \<le> m - 1" "m - 1 < 2 ^ k"
    using floorlog_bounds[of "m - 1" 2] m2 by (auto simp: k_def)
  have k1: "0 < k" using m2 floorlog_eq_zero_iff[of 2 "m - 1"] by (auto simp: k_def)
  have "m \<le> 2 ^ k" using fb(2) by simp
  then have "(of_nat m :: rat) \<le> 2 ^ k" by (rule of_nat_le_pow2)
  then have yk: "y \<le> 2 ^ k" using ym(1) by linarith
  have "(2::rat) ^ (k - 1) \<le> of_nat (m - 1)"
    using fb(1) by (rule pow2_le_of_nat)
  then have "(2::rat) ^ (k - 1) \<le> of_nat m - 1" using m2 by (simp add: of_nat_diff)
  then have ky: "(2::rat) ^ (k - 1) < y" using ym(2) by linarith
  have "1 / (2::rat) ^ k \<le> 1 / y" using yk y1 by (intro divide_left_mono) auto
  then have lo: "1 / (2::rat) ^ k \<le> a" using ay by simp
  have "1 / y < 1 / (2::rat) ^ (k - 1)" using ky y1 by (intro divide_strict_left_mono) auto
  then have hi: "a < 1 / (2::rat) ^ (k - 1)" using ay by simp
  have e1: "(2::rat) powi (- int k) = 1 / 2 ^ k"
    by (rule powi_neg)
  have "- int k + 1 = - int (k - 1)" using k1 by simp
  then have e2: "(2::rat) powi (- int k + 1) = 1 / 2 ^ (k - 1)"
    by (simp only: powi_neg)
  show "2 powi (- int (floorlog 2 (nat \<lceil>1 / a\<rceil> - 1))) \<le> a"
    unfolding y_def[symmetric] m_def[symmetric] k_def[symmetric] e1 by (rule lo)
  show "a < 2 powi (- int (floorlog 2 (nat \<lceil>1 / a\<rceil> - 1)) + 1)"
    unfolding y_def[symmetric] m_def[symmetric] k_def[symmetric] e2 by (rule hi)
qed

lemma binade_bounds:
  assumes "x \<noteq> 0"
  shows "2 powi (binade x) \<le> \<bar>x\<bar> \<and> \<bar>x\<bar> < 2 powi (binade x + 1)"
proof (cases "1 \<le> \<bar>x\<bar>")
  case True
  then show ?thesis using binade_ge1[of "\<bar>x\<bar>"] by (simp add: binade_def Let_def)
next
  case False
  then have "0 < \<bar>x\<bar>" "\<bar>x\<bar> < 1" using assms by auto
  then show ?thesis using binade_lt1[of "\<bar>x\<bar>"] False by (simp add: binade_def Let_def)
qed

lemma round_half_even_near: "\<bar>of_int (round_half_even z) - z\<bar> \<le> 1 / 2"
proof -
  define f where "f = \<lfloor>z\<rfloor>"
  define r where "r = z - of_int f"
  have r: "0 \<le> r" "r < 1" unfolding r_def f_def by linarith+
  have z: "z = of_int f + r" by (simp add: r_def)
  have rd: "round_half_even z =
      (if r < 1/2 then f else if 1/2 < r then f + 1 else if even f then f else f + 1)"
    by (simp add: round_half_even_def Let_def r_def f_def)
  have "\<bar>of_int (round_half_even z) - (of_int f + r)\<bar> \<le> 1 / 2"
    unfolding rd using r by (auto simp: abs_if)
  then show ?thesis by (simp add: r_def)
qed

lemma fl_near:
  assumes "x \<noteq> 0"
  shows "\<bar>fl x - x\<bar> \<le> 2 powi (binade x - 53)"
proof -
  define u :: rat where "u = 2 powi (binade x - 52)"
  have u0: "0 < u" by (simp add: u_def)
  have "fl x - x = (of_int (round_half_even (x / u)) - x / u) * u"
    using assms u0 by (simp add: fl_def Let_def u_def[symmetric] algebra_simps)
  then have "\<bar>fl x - x\<bar> = \<bar>of_int (round_half_even (x / u)) - x / u\<bar> * u"
    using u0 by (simp add: abs_mult)
  also have "\<dots> \<le> (1 / 2) * u"
    using round_half_even_near[of "x / u"] u0 by (intro mult_right_mono) auto
  also have "(1 / 2) * u = 2 powi (binade x - 53)"
    by (simp add: u_def power_int_diff)
  finally show ?thesis .
qed

text \<open>
  Integers below \<open>2^53\<close> are floats: sums and differences of whole numbers of seconds
  are not rounded.
\<close>

lemma round_half_even_of_int: "round_half_even (of_int k) = k"
  by (simp add: round_half_even_def)

lemma fl_of_int:
  assumes "\<bar>n\<bar> < 2 ^ 53"
  shows "fl (of_int n) = of_int n"
proof (cases "n = 0")
  case True
  then show ?thesis by (simp add: fl_def)
next
  case False
  define x :: rat where "x = of_int n"
  define e where "e = binade x"
  have x0: "x \<noteq> 0" using False by (simp add: x_def)
  have ax: "\<bar>x\<bar> < 2 ^ 53"
  proof -
    have "(of_int \<bar>n\<bar> :: rat) < of_int (2 ^ 53)" using assms by (simp only: of_int_less_iff)
    then show ?thesis by (simp add: x_def)
  qed
  have "2 powi e \<le> \<bar>x\<bar>" using binade_bounds[OF x0] by (simp add: e_def)
  then have "(2::rat) powi e < 2 powi 53" using ax by simp
  then have e53: "e < 53" by (rule power_int_le_imp_less_exp[rotated]) simp_all
  define j where "j = nat (52 - e)"
  have je: "e - 52 = - int j" using e53 by (simp add: j_def)
  have u: "(2::rat) powi (e - 52) = 1 / 2 ^ j" unfolding je by (rule powi_neg)
  have "x / (1 / 2 ^ j) = of_int (n * 2 ^ j)" by (simp add: x_def)
  then have "round_half_even (x / (1 / 2 ^ j)) = n * 2 ^ j"
    by (simp only: round_half_even_of_int)
  then have "fl x = of_int (n * 2 ^ j) * (1 / 2 ^ j)"
    using x0 by (simp add: fl_def Let_def e_def[symmetric] u)
  then show ?thesis by (simp add: x_def)
qed

lemma whole_seconds_unrounded:
  assumes "\<bar>a + b\<bar> < 2 ^ 53" "\<bar>a + b - c\<bar> < 2 ^ 53"
  shows "fadd (of_int a) (of_int b) = of_int a + of_int b"
    and "fsub (of_int a + of_int b) (of_int c) = of_int a + of_int b - of_int c"
proof -
  show "fadd (of_int a) (of_int b) = of_int a + of_int b"
    using fl_of_int[OF assms(1)] by (simp add: fadd_def)
  show "fsub (of_int a + of_int b) (of_int c) = of_int a + of_int b - of_int c"
    using fl_of_int[OF assms(2)] by (simp add: fsub_def)
qed

lemma round_half_even_nonneg: "0 \<le> x \<Longrightarrow> 0 \<le> round_half_even x"
  by (auto simp: round_half_even_def Let_def)

lemma fl_nonneg: "0 \<le> x \<Longrightarrow> 0 \<le> fl x"
  by (auto simp: fl_def Let_def intro!: mult_nonneg_nonneg round_half_even_nonneg divide_nonneg_pos)

lemma hint_28: "fadd 20 (float_of_int 8) = 28"
  by code_simp

section \<open>The crossfade offsets\<close>

text \<open>
  Claim C4, as the code has it. \<open>offset1\<close> is \<open>intro_visible\<close> and \<open>offset2\<close> is the float
  result of \<open>(offset1 + main_duration) - crossfade_dur\<close>. When neither the sum nor the
  difference is rounded, \<open>offset2 - offset1\<close> equals \<open>main_duration - crossfade_dur\<close>, both as
  exact numbers and as float differences. With rounding the equality can fail, also for
  \<open>main_duration > crossfade_dur\<close>: it does for 4.0, 1.1 and 1.0.
\<close>

theorem crossfade_offsets_unrounded:
  assumes "fadd intro_visible main_duration = intro_visible + main_duration"
      and "fsub (intro_visible + main_duration) crossfade_dur
             = intro_visible + main_duration - crossfade_dur"
  shows "crossfade_offset1 intro_visible = intro_visible
       \<and> crossfade_offset2 intro_visible main_duration crossfade_dur
           = fsub (fadd intro_visible main_duration) crossfade_dur
       \<and> crossfade_offset2 intro_visible main_duration crossfade_dur
           - crossfade_offset1 intro_visible = main_duration - crossfade_dur
       \<and> fsub (crossfade_offset2 intro_visible main_duration crossfade_dur)
               (crossfade_offset1 intro_visible) = fsub main_duration crossfade_dur"
proof -
  have o2: "crossfade_offset2 intro_visible main_duration crossfade_dur
              = intro_visible + main_duration - crossfade_dur"
    using assms by (simp add: crossfade_offset2_def crossfade_offset1_def)
  then have "crossfade_offset2 intro_visible main_duration crossfade_dur - intro_visible
               = main_duration - crossfade_dur"
    by simp
  then show ?thesis
    by (simp add: crossfade_offset1_def crossfade_offset2_def fsub_def)
qed

theorem crossfade_offsets_unrounded_witness:
  "fadd 4 20 = 4 + 20 \<and> fsub (4 + 20) 1 = 4 + 20 - 1
   \<and> crossfade_offset2 4 20 1 = 23
   \<and> crossfade_offset2 4 20 1 - crossfade_offset1 4 = 20 - 1"
proof -
  have a: "fadd 4 20 = 4 + 20" by code_simp
  have b: "fsub (4 + 20) 1 = 4 + 20 - 1" by code_simp
  have c: "crossfade_offset2 4 20 1 = 23" by code_simp
  show ?thesis using crossfade_offsets_unrounded[OF a b] a b c by simp
qed

theorem crossfade_offsets_counterexample:
  "1 < dbl_1_1 \<and> fl dbl_1_1 = dbl_1_1
   \<and> crossfade_offset2 4 dbl_1_1 1 = 2308094809027379 / 562949953421312
   \<and> fsub (crossfade_offset2 4 dbl_1_1 1) (crossfade_offset1 4) \<noteq> fsub dbl_1_1 1
   \<and> crossfade_offset2 4 dbl_1_1 1 - crossfade_offset1 4 \<noteq> dbl_1_1 - 1"
  by code_simp

section \<open>The progress values\<close>

lemma timestamp_seconds_nonneg:
  "0 \<le> h \<Longrightarrow> 0 \<le> m \<Longrightarrow> 0 \<le> s \<Longrightarrow> 0 \<le> ms \<Longrightarrow> 0 \<le> timestamp_seconds h m s ms"
  unfolding timestamp_seconds_def fadd_def fdiv_def float_of_int_def
  by (intro fl_nonneg add_nonneg_nonneg divide_nonneg_nonneg) simp_all

lemma int_of_digits_nonneg: "0 \<le> int_of_digits ds"
  by (simp add: int_of_digits_def)

lemma parse_time_nonneg: "parse_time line = Some s \<Longrightarrow> 0 \<le> s"
  by (auto simp: parse_time_def timestamp_seconds_nonneg int_of_digits_nonneg split: option.splits)

lemma progress_line_bounds:
  "progress_line (Some t) line = Some c \<Longrightarrow> 0 \<le> c \<and> c \<le> t"
  by (auto simp: progress_line_def pbar_bool_def min_def dest: parse_time_nonneg split: if_splits option.splits)

lemma in_map_filterD: "c \<in> set (List.map_filter f xs) \<Longrightarrow> \<exists>x\<in>set xs. f x = Some c"
  by (induction xs) (auto split: option.splits)

text \<open>
  Claim C6. Every value the progress bar is given during a run with total-duration hint
  \<open>t\<close>, the closing one included, lies between 0 and \<open>t\<close>, whatever the lines of the
  diagnostic stream are.
\<close>

theorem progress_clamped:
  "c \<in> set (fst (run_ffmpeg_with_progress popen cmd (Some t) desc)) \<Longrightarrow> 0 \<le> c \<and> c \<le> t"
  by (auto simp: run_ffmpeg_with_progress_def Let_def published_progress_def pbar_bool_def
      dest!: in_map_filterD dest: progress_line_bounds split: if_splits)

theorem progress_clamped_witness:
  "parse_time ''frame= 600 fps= 30 time=00:00:25.00 bitrate= 524.3kbits/s'' = Some 25
   \<and> fst (run_ffmpeg_with_progress overshoot_stream [''ffmpeg''] (Some 20) ''Rendering'') = [20, 20]
   \<and> (0::rat) \<le> 20 \<and> (20::rat) \<le> 20"
proof -
  have run: "fst (run_ffmpeg_with_progress overshoot_stream [''ffmpeg''] (Some 20) ''Rendering'') = [20, 20]"
    by code_simp
  then have "(20::rat) \<in> set (fst (run_ffmpeg_with_progress overshoot_stream [''ffmpeg''] (Some 20) ''Rendering''))"
    by simp
  then have "(0::rat) \<le> 20 \<and> (20::rat) \<le> 20" by (rule progress_clamped)
  moreover have "parse_time ''frame= 600 fps= 30 time=00:00:25.00 bitrate= 524.3kbits/s'' = Some 25"
    by code_simp
  ultimately show ?thesis using run by simp
qed

lemma match_time_at_starts: "match_time_at s = Some g \<Longrightarrow> starts_with ''time='' s"
  by (simp add: match_time_at_def split: if_splits)

lemma search_time_py_in: "search_time line = Some g \<Longrightarrow> py_in ''time='' line"
  by (induction line) (auto dest: match_time_at_starts split: option.splits)

lemma parse_time_py_in: "parse_time line = Some s \<Longrightarrow> py_in ''time='' line"
  by (auto simp: parse_time_def dest: search_time_py_in split: option.splits)

lemma progress_line_eq:
  "progress_line (Some t) line = (if 0 < t then map_option (\<lambda>s. min s t) (parse_time line) else None)"
  by (cases "parse_time line")
     (auto simp: progress_line_def pbar_bool_def has_pbar_def dest: parse_time_py_in)

lemma published_progress_eq:
  "published_progress (Some t) lines =
     (if 0 < t then map (\<lambda>s. min s t) (List.map_filter parse_time lines) else [])"
  unfolding published_progress_def
  by (induction lines) (auto simp: progress_line_eq split: option.splits)

lemma sorted_map_min: "sorted xs \<Longrightarrow> sorted (map (\<lambda>s. min s (t::rat)) xs)"
  by (induction xs) (auto simp: min_def)

text \<open>
  Claim C3, as the code has it. The loop publishes \<open>min(seconds, total_duration)\<close> for
  every line with a timestamp and keeps no maximum of what it showed before. The published
  values are non-decreasing when the timestamps in the stream, in their order, are
  non-decreasing; a timestamp that steps back makes the published value step back.
\<close>

theorem progress_monotone_if_stream_monotone:
  assumes "sorted (List.map_filter parse_time (stderr_lines (popen cmd)))"
  shows "sorted (fst (run_ffmpeg_with_progress popen cmd (Some t) desc))"
  using assms
  by (auto simp: run_ffmpeg_with_progress_def Let_def published_progress_eq pbar_bool_def
      sorted_append sorted_map_min)

theorem progress_monotone_witness:
  "fst (run_ffmpeg_with_progress rising_stream [''ffmpeg''] (Some 20) ''Rendering'') = [3, 5, 20]
   \<and> sorted (fst (run_ffmpeg_with_progress rising_stream [''ffmpeg''] (Some 20) ''Rendering''))"
proof -
  have "sorted (List.map_filter parse_time (stderr_lines (rising_stream [''ffmpeg''])))"
    by code_simp
  then have "sorted (fst (run_ffmpeg_with_progress rising_stream [''ffmpeg''] (Some 20) ''Rendering''))"
    by (rule progress_monotone_if_stream_monotone)
  moreover have "fst (run_ffmpeg_with_progress rising_stream [''ffmpeg''] (Some 20) ''Rendering'') = [3, 5, 20]"
    by code_simp
  ultimately show ?thesis by simp
qed

theorem progress_steps_back:
  "fst (run_ffmpeg_with_progress two_step_stream [''ffmpeg''] (Some 20) ''Rendering'') = [5, 3, 20]
   \<and> \<not> sorted (fst (run_ffmpeg_with_progress two_step_stream [''ffmpeg''] (Some 20) ''Rendering''))"
  by code_simp

section \<open>The timestamp pattern\<close>












section \<open>The stream probe\<close>


























section \<open>The project pipeline and the batch\<close>

lemma run_hints_append: "run_hints (xs @ ys) = run_hints xs @ run_hints ys"
  by (induction xs rule: run_hints.induct) auto

lemma get_duration_error: "get_duration w p = Inl e \<Longrightarrow> exit_status (Inl e) = 1"
  by (auto simp: get_duration_def Let_def exit_status_def split: if_splits option.splits)

lemma parse_stream_info_error: "parse_stream_info out = Inl e \<Longrightarrow> e = ValueError"
  by (auto simp: parse_stream_info_def split: list.splits sum.splits)

lemma get_stream_info_error: "get_stream_info w p = Inl e \<Longrightarrow> exit_status (Inl e) = 1"
  by (auto simp: get_stream_info_def Let_def exit_status_def dest: parse_stream_info_error split: if_splits)

lemma run_ffmpeg_error:
  "snd (run_ffmpeg_with_progress popen cmd t desc) = Inl e \<Longrightarrow> exit_status (Inl e) = 1"
  by (auto simp: run_ffmpeg_with_progress_def Let_def exit_status_def split: if_splits)

lemma process_project_error:
  "snd (process_project w d codec) = Inl e \<Longrightarrow> exit_status (Inl e) = 1"
  unfolding process_project_def Let_def
  by (auto split: list.splits if_splits sum.splits prod.splits
      dest: get_duration_error get_stream_info_error run_ffmpeg_error)

lemma process_project_skip:
  assumes "fs_glob_mp4 w d = [] \<or> \<not> fs_exists w (d @ [''intro.png'']) \<or> \<not> fs_exists w (d @ [''outro.png''])"
  shows "process_project w d codec = ([Mkdir (d @ [''02_Work'']), Mkdir (d @ [''03_Final''])], Inr ())"
  using assms unfolding process_project_def Let_def
  by (auto split: list.splits)

lemma run_projects_append:
  "run_projects w codec (xs @ ys) =
     (case run_projects w codec xs of
        (ev, Inl e) \<Rightarrow> (ev, Inl e)
      | (ev, Inr u) \<Rightarrow> (case run_projects w codec ys of (ev', r) \<Rightarrow> (ev @ ev', r)))"
  by (induction xs) (auto split: prod.splits sum.splits)


lemma run_projects_status:
  "exit_status (snd (run_projects w codec ds)) =
     (if \<forall>p\<in>set ds. snd (process_project w p codec) = Inr () then 0 else 1)"
proof (induction ds)
  case Nil
  then show ?case by (simp add: exit_status_def)
next
  case (Cons d ds)
  show ?case
  proof (cases "snd (process_project w d codec)")
    case (Inl e)
    then have "run_projects w codec (d # ds) = (fst (process_project w d codec), Inl e)"
      by (auto split: prod.splits sum.splits)
    then show ?thesis using Inl process_project_error[OF Inl] by simp
  next
    case (Inr u)
    then have "snd (run_projects w codec (d # ds)) = snd (run_projects w codec ds)"
      by (auto split: prod.splits sum.splits)
    then show ?thesis using Inr Cons.IH by simp
  qed
qed

lemma strip_duration_text: "strip (''20.000000'' @ [CHR 0x0A]) = ''20.000000''"
  by code_simp

lemma studio_get_duration: "get_duration (studio names missing enc) p = Inr 20"
  by (simp add: get_duration_def studio_def duration_cmd_def strip_duration_text del: append.simps)

lemma studio_stream_text:
  "parse_stream_info (''1920'' @ [CHR 0x0A] @ ''1080'' @ [CHR 0x0A] @ ''30/1'' @ [CHR 0x0A])
   = Inr (1920, 1080, PyFloat 30)"
  by code_simp

lemma studio_get_stream_info:
  "get_stream_info (studio names missing enc) p = Inr (1920, 1080, PyFloat 30)"
  by (simp add: get_stream_info_def studio_def duration_cmd_def stream_cmd_def studio_stream_text
      del: append.simps)

lemma studio_run:
  "snd (run_ffmpeg_with_progress (ffmpeg (studio names missing enc)) cmd t label) =
     (if enc cmd \<noteq> 0 then Inl (CalledProcessError (enc cmd) cmd) else Inr ())"
  by (simp add: run_ffmpeg_with_progress_def studio_def)

lemma studio_fs:
  "fs_glob_mp4 (studio names missing enc) p = [''main.mp4'']"
  "fs_exists (studio names missing enc) p = (p \<notin> set missing)"
  "fs_is_dir (studio names missing enc) p = True"
  "fs_iterdir (studio names missing enc) [''VID''] = names"
  "script_dir (studio names missing enc) = []"
  by (simp_all add: studio_def)

lemma studio_returncode: "returncode (ffmpeg (studio names missing enc) cmd) = enc cmd"
  by (simp add: studio_def)

lemma studio_project:
  "process_project (studio names missing enc) d codec =
     (let made = [Mkdir (d @ [''02_Work'']), Mkdir (d @ [''03_Final''])];
          norm_cmd = normalize_cmd (d @ [''main.mp4'']) (d @ [''02_Work'', ''normalized.mp4'']);
          norm = Run norm_cmd (Some 20) ''Normalizing'';
          cmd = render_cmd (d @ [''intro.png'']) (d @ [''02_Work'', ''normalized.mp4''])
                  (d @ [''outro.png''])
                  (build_crossfade_filter whole_repr (d @ [''intro.png''])
                     (d @ [''02_Work'', ''normalized.mp4'']) (d @ [''outro.png''])
                     20 1920 1080 (PyFloat 30) 4 1 4)
                  (select_vcodec codec) (d @ [''03_Final'', path_name d @ ''_final.mp4''])
      in if d @ [''intro.png''] \<in> set missing \<or> d @ [''outro.png''] \<in> set missing
         then (made, Inr ())
         else if enc norm_cmd \<noteq> 0 then (made @ [norm], Inl (CalledProcessError (enc norm_cmd) norm_cmd))
         else (made @ [norm, Run cmd (Some 28) ''Rendering''],
               if enc cmd \<noteq> 0 then Inl (CalledProcessError (enc cmd) cmd) else Inr ()))"
  by (simp add: process_project_def Let_def studio_fs studio_get_duration studio_get_stream_info
      studio_run hint_28)
     (simp add: studio_def)

lemma a_fails_norm:
  "a_fails (normalize_cmd [''VID'', ''A'', ''main.mp4''] [''VID'', ''A'', ''02_Work'', ''normalized.mp4'']) = 1"
  by (simp add: a_fails_def normalize_cmd_def path_str_def)

lemma studio_dirs: "proj_dirs_of (studio names missing enc) = map (\<lambda>n. [''VID'', n]) names"
  by (simp add: proj_dirs_of_def studio_fs)

text \<open>
  Claim C8. A project directory without a \<open>*.mp4\<close> file, without \<open>intro.png\<close> or without
  \<open>outro.png\<close> makes \<open>process_project\<close> return after creating its two directories: no
  encoder command is started, so no file is written into \<open>03_Final\<close>. In a batch the
  outcome and the encoder commands are those of the batch without that directory: the
  other projects are processed as they would be without it.
\<close>

theorem missing_input_skips:
  assumes "fs_glob_mp4 w d = [] \<or> \<not> fs_exists w (d @ [''intro.png''])
             \<or> \<not> fs_exists w (d @ [''outro.png''])"
  shows "process_project w d codec = ([Mkdir (d @ [''02_Work'']), Mkdir (d @ [''03_Final''])], Inr ())
       \<and> snd (run_projects w codec (pre @ d # post)) = snd (run_projects w codec (pre @ post))
       \<and> run_hints (fst (run_projects w codec (pre @ d # post)))
           = run_hints (fst (run_projects w codec (pre @ post)))"
proof -
  have skip: "process_project w d codec = ([Mkdir (d @ [''02_Work'']), Mkdir (d @ [''03_Final''])], Inr ())"
    using assms by (rule process_project_skip)
  have step: "run_projects w codec (d # post) =
                (case run_projects w codec post of (ev', r) \<Rightarrow>
                   ([Mkdir (d @ [''02_Work'']), Mkdir (d @ [''03_Final''])] @ ev', r))"
    by (simp add: skip)
  show ?thesis
    using skip
    by (auto simp: run_projects_append[of w codec pre] step run_hints_append
        split: prod.splits sum.splits)
qed

theorem missing_input_skips_witness:
  "process_project (studio [''A'', ''B'', ''C''] [[''VID'', ''B'', ''intro.png'']] all_succeed)
       [''VID'', ''B''] ''h265_nvenc''
     = ([Mkdir [''VID'', ''B'', ''02_Work''], Mkdir [''VID'', ''B'', ''03_Final'']], Inr ())
   \<and> run_hints (fst (run_projects (studio [''A'', ''B'', ''C''] [[''VID'', ''B'', ''intro.png'']] all_succeed)
                       ''h265_nvenc'' [[''VID'', ''A''], [''VID'', ''B''], [''VID'', ''C'']]))
     = [(''Normalizing'', Some 20, ''VID/A/02_Work/normalized.mp4''),
        (''Rendering'', Some 28, ''VID/A/03_Final/A_final.mp4''),
        (''Normalizing'', Some 20, ''VID/C/02_Work/normalized.mp4''),
        (''Rendering'', Some 28, ''VID/C/03_Final/C_final.mp4'')]"
proof -
  let ?w = "studio [''A'', ''B'', ''C''] [[''VID'', ''B'', ''intro.png'']] all_succeed"
  have miss: "fs_glob_mp4 ?w [''VID'', ''B''] = [] \<or> \<not> fs_exists ?w ([''VID'', ''B''] @ [''intro.png''])
                \<or> \<not> fs_exists ?w ([''VID'', ''B''] @ [''outro.png''])"
    by (simp add: studio_fs)
  have rest: "run_hints (fst (run_projects ?w ''h265_nvenc'' ([[''VID'', ''A'']] @ [[''VID'', ''C'']])))
     = [(''Normalizing'', Some 20, ''VID/A/02_Work/normalized.mp4''),
        (''Rendering'', Some 28, ''VID/A/03_Final/A_final.mp4''),
        (''Normalizing'', Some 20, ''VID/C/02_Work/normalized.mp4''),
        (''Rendering'', Some 28, ''VID/C/03_Final/C_final.mp4'')]"
    by (simp add: studio_project Let_def all_succeed_def)
       (simp add: normalize_cmd_def render_cmd_def path_str_def path_name_def)
  show ?thesis
    using missing_input_skips[OF miss, of "''h265_nvenc''" "[[''VID'', ''A'']]" "[[''VID'', ''C'']]"] rest
    by (simp del: run_projects.simps)
qed




text \<open>
  Claim C2, as the code has it. The exit status is 0 when the directory \<open>VID\<close> exists and
  every project directory returns (processed or skipped); it is 1 when \<open>VID\<close> is absent and
  also when some project raises.
\<close>

theorem exit_status_rule:
  "exit_status (snd (main w argv)) =
     (if fs_exists w (script_dir w @ [''VID''])
         \<and> (\<forall>d\<in>set (proj_dirs_of w). snd (process_project w d (codec_of_argv argv)) = Inr ())
      then 0 else 1)"
proof (cases "fs_exists w (script_dir w @ [''VID''])")
  case True
  then show ?thesis by (simp add: main_def run_projects_status)
next
  case False
  then show ?thesis by (simp add: main_def exit_status_def)
qed

theorem exit_status_rule_witness:
  "exit_status (snd (main (studio [''A'', ''B'', ''C''] [[''VID'', ''B'', ''intro.png'']] all_succeed)
                       [''process_videos.py''])) = 0"
  using exit_status_rule[of "studio [''A'', ''B'', ''C''] [[''VID'', ''B'', ''intro.png'']] all_succeed"
          "[''process_videos.py'']"]
  by (simp add: studio_fs studio_dirs studio_project Let_def all_succeed_def)

theorem exit_status_counterexample:
  "fs_exists (studio [''A'', ''B''] [] a_fails) (script_dir (studio [''A'', ''B''] [] a_fails) @ [''VID''])
   \<and> exit_status (snd (main (studio [''A'', ''B''] [] a_fails) [''process_videos.py''])) = 1"
  by (simp add: main_def studio_fs studio_dirs studio_project a_fails_norm Let_def exit_status_def)



text \<open>
  Claim C9. For the project \<open>Demo\<close> whose first \<open>*.mp4\<close> is \<open>main.mp4\<close>, with
  \<open>intro.png\<close> and \<open>outro.png\<close>, a raw and a normalized duration of 20.0 s, a
  normalization that exits with status 0 and a stream probe that succeeds, the encoder is
  started exactly twice: once to normalize, with hint 20.0, and once to render, with hint
  28.0, writing \<open>Demo/03_Final/Demo_final.mp4\<close>. This holds for every codec name, the
  default one included.
\<close>

theorem demo_end_to_end:
  assumes "fs_glob_mp4 w [''Demo''] = ''main.mp4'' # others"
      and "fs_exists w [''Demo'', ''intro.png'']"
      and "fs_exists w [''Demo'', ''outro.png'']"
      and "get_duration w [''Demo'', ''main.mp4''] = Inr 20"
      and "returncode (ffmpeg w (normalize_cmd [''Demo'', ''main.mp4'']
                                    [''Demo'', ''02_Work'', ''normalized.mp4''])) = 0"
      and "get_duration w [''Demo'', ''02_Work'', ''normalized.mp4''] = Inr 20"
      and "get_stream_info w [''Demo'', ''02_Work'', ''normalized.mp4''] = Inr (wd, ht, fps)"
  shows "run_hints (fst (process_project w [''Demo''] codec)) =
           [(''Normalizing'', Some 20, ''Demo/02_Work/normalized.mp4''),
            (''Rendering'', Some 28, ''Demo/03_Final/Demo_final.mp4'')]"
  using assms
  by (simp add: process_project_def Let_def run_ffmpeg_with_progress_def hint_28
      normalize_cmd_def render_cmd_def path_str_def path_name_def)

theorem demo_end_to_end_witness:
  "run_hints (fst (process_project (studio [] [] all_succeed) [''Demo'']
                     (codec_of_argv [''process_videos.py''])))
     = [(''Normalizing'', Some 20, ''Demo/02_Work/normalized.mp4''),
        (''Rendering'', Some 28, ''Demo/03_Final/Demo_final.mp4'')]"
  by (rule demo_end_to_end[where others = "[]" and wd = 1920 and ht = 1080 and fps = "PyFloat 30"])
     (simp_all add: studio_fs studio_get_duration studio_get_stream_info studio_returncode
        all_succeed_def)

end
